theory Spec2Isabelle
  imports Main "HOL-Library.Sublist"
begin

section \<open>The environment: what \<^verbatim>\<open>subprocess.run\<close> meets\<close>

text \<open>
  The scripts are diagnostic: all they compute is decided by what the operating system
  answers when a command line is run. The system is therefore a parameter of the model,
  a function from the command line to what becomes of it:
  \<^item> \<open>NoSuchFile\<close>: the first word names no program, no child process exists;
  \<^item> \<open>Fails msg\<close>: \<^verbatim>\<open>subprocess.run\<close> raises another exception in the calling
    script (permission denied, the fork fails, the captured output cannot be decoded
    under \<^verbatim>\<open>text=True\<close>), \<open>msg\<close> being the text of the exception;
  \<^item> \<open>Exits secs rc out err\<close>: the child exits after \<open>secs\<close> seconds (rounded up) with
    status \<open>rc\<close>, having written \<open>out\<close> and \<open>err\<close>;
  \<^item> \<open>Hangs\<close>: the child never exits.

  Captured text is an Isabelle string: a list of characters with codes below 256.
\<close>

datatype proc =
    NoSuchFile
  | Fails string
  | Exits nat int string string
  | Hangs

type_synonym system = "string list \<Rightarrow> proc"

record completed_process =
  returncode :: int
  stdout :: string
  stderr :: string

datatype exn = FileNotFoundError | TimeoutExpired | OtherException string

text \<open>
  A call of the script returns a value, raises, or never returns (\<open>Blocked\<close>, the value
  that stands for a script waiting forever on a child).
\<close>

datatype 'a outcome = Returned 'a | Raised exn | Blocked

text \<open>
  \<^verbatim>\<open>subprocess.run(cmd, capture_output=True, ...)\<close> of the Python library. Without
  \<^verbatim>\<open>timeout\<close> it waits for the child however long that takes; with \<^verbatim>\<open>timeout=t\<close> it
  kills a child that is still running after \<open>t\<close> seconds and raises
  \<^verbatim>\<open>TimeoutExpired\<close>.
\<close>

definition subprocess_run :: "system \<Rightarrow> string list \<Rightarrow> nat option \<Rightarrow> completed_process outcome" where
  "subprocess_run os cmd timeout =
     (case os cmd of
        NoSuchFile \<Rightarrow> Raised FileNotFoundError
      | Fails msg \<Rightarrow> Raised (OtherException msg)
      | Exits secs rc out err \<Rightarrow>
          (case timeout of
             None \<Rightarrow> Returned \<lparr>returncode = rc, stdout = out, stderr = err\<rparr>
           | Some t \<Rightarrow>
               if secs \<le> t then Returned \<lparr>returncode = rc, stdout = out, stderr = err\<rparr>
               else Raised TimeoutExpired)
      | Hangs \<Rightarrow> (case timeout of None \<Rightarrow> Blocked | Some t \<Rightarrow> Raised TimeoutExpired))"

section \<open>What a script does: the lines it prints and the commands it runs\<close>

text \<open>
  One constructor for each \<^verbatim>\<open>print\<close> statement of the probing code, carrying the values
  the f-string interpolates.

  verify-superclaude.py:
  \<^item> \<open>Found env_name\<close>: \<^verbatim>\<open>{env_name}: SuperClaude found\<close> (check mark);
  \<^item> \<open>Details text\<close>: \<^verbatim>\<open>details.stdout.strip()\<close>;
  \<^item> \<open>NotFound env_name\<close>: \<^verbatim>\<open>{env_name}: SuperClaude NOT found\<close> (cross);
  \<^item> \<open>ErrorText text\<close>: \<^verbatim>\<open>Error: {result.stderr.strip()}\<close>;
  \<^item> \<open>PythonNotFound env_name python_path\<close>: \<^verbatim>\<open>{env_name}: Python not found at {python_path}\<close>;
  \<^item> \<open>ErrorMsg env_name e\<close>: \<^verbatim>\<open>{env_name}: Error - {e}\<close>;
  \<^item> \<open>Blank\<close>: \<^verbatim>\<open>print()\<close>.

  test-simple-fix.py:
  \<^item> \<open>NotSet name\<close>: \<^verbatim>\<open>{name}: Not set\<close>;
  \<^item> \<open>PathFound name python_path\<close>: \<^verbatim>\<open>{name}: {python_path} - SuperClaude found\<close>;
  \<^item> \<open>PathNotFound name python_path\<close>: \<^verbatim>\<open>{name}: {python_path} - SuperClaude not found\<close>;
  \<^item> \<open>NotAccessible name python_path\<close>: \<^verbatim>\<open>{name}: {python_path} - Not accessible\<close>.

  test-bridge-functionality.py, the loop over \<^verbatim>\<open>test_commands\<close>:
  \<^item> \<open>Testing test_name\<close>, \<open>Command cmd\<close> (the words of \<open>cmd\<close> joined by blanks),
    \<open>Success\<close>, \<open>OutputPreview text\<close>, \<open>FailedWithCode rc\<close>, \<open>ErrorPreview text\<close>,
    \<open>TimedOut\<close> (\<^verbatim>\<open>Command timed out\<close>), \<open>TestError e\<close> (\<^verbatim>\<open>Error: {e}\<close>).
\<close>

datatype line =
    Found string
  | Details string
  | NotFound string
  | ErrorText string
  | PythonNotFound string string
  | ErrorMsg string exn
  | Blank
  | NotSet string
  | PathFound string string
  | PathNotFound string string
  | NotAccessible string string
  | Testing string
  | Command "string list"
  | Success
  | OutputPreview string
  | FailedWithCode int
  | ErrorPreview string
  | TimedOut
  | TestError exn

datatype event = Call "string list" | Print line

type_synonym 'a io = "event list \<times> 'a outcome"

definition return_io :: "'a \<Rightarrow> 'a io" where
  "return_io v = ([], Returned v)"

text \<open>
  \<^verbatim>\<open>print\<close> writes to the standard output of the script, and that can fail: a stream that
  cannot encode a character of the line raises \<^verbatim>\<open>UnicodeEncodeError\<close>, a closed pipe raises
  \<^verbatim>\<open>BrokenPipeError\<close>, both of them exceptions that \<^verbatim>\<open>except Exception\<close> takes. The
  standard output is a second parameter of the model: for each line either \<open>None\<close>, the
  line is written, or \<open>Some msg\<close>, \<^verbatim>\<open>print\<close> raises an exception with the text \<open>msg\<close>.
\<close>

type_synonym console = "line \<Rightarrow> string option"

definition print_on :: "console \<Rightarrow> line \<Rightarrow> unit io" where
  "print_on out l =
     (case out l of
        None \<Rightarrow> ([Print l], Returned ())
      | Some msg \<Rightarrow> ([], Raised (OtherException msg)))"

text \<open>
  \<^verbatim>\<open>print\<close> on a standard output that takes every line. The definitions of the scripts
  come twice below: first with this \<open>print_line\<close>, for what the scripts select and report
  when their output can be written, then with \<open>print_on\<close>, for what becomes of them when it
  cannot.
\<close>

definition print_line :: "line \<Rightarrow> unit io" where
  "print_line l = ([Print l], Returned ())"

definition run :: "system \<Rightarrow> string list \<Rightarrow> nat option \<Rightarrow> completed_process io" where
  "run os cmd timeout = ([Call cmd], subprocess_run os cmd timeout)"

text \<open>Sequencing: the second statement runs only if the first returns.\<close>

definition bind_io :: "'a io \<Rightarrow> ('a \<Rightarrow> 'b io) \<Rightarrow> 'b io" where
  "bind_io m f =
     (case m of
        (evs, Returned v) \<Rightarrow> (evs @ fst (f v), snd (f v))
      | (evs, Raised e) \<Rightarrow> (evs, Raised e)
      | (evs, Blocked) \<Rightarrow> (evs, Blocked))"

text \<open>\<^verbatim>\<open>try: m except ... as e: h e\<close>, the handlers together being \<open>h\<close>.\<close>

definition try_except :: "'a io \<Rightarrow> (exn \<Rightarrow> 'a io) \<Rightarrow> 'a io" where
  "try_except m h =
     (case m of
        (evs, Raised e) \<Rightarrow> (evs @ fst (h e), snd (h e))
      | (evs, r) \<Rightarrow> (evs, r))"

section \<open>Strings\<close>

text \<open>\<^verbatim>\<open>sub in s\<close> on Python strings: \<open>sub\<close> occurs in \<open>s\<close> as a contiguous piece.\<close>

fun str_in :: "string \<Rightarrow> string \<Rightarrow> bool" where
  "str_in sub [] = (sub = [])"
| "str_in sub (c # cs) = (prefix sub (c # cs) \<or> str_in sub cs)"

text \<open>
  \<^verbatim>\<open>str.isspace\<close> on one character with a code below 256, and \<^verbatim>\<open>str.strip()\<close>, which
  removes the white space at both ends.
\<close>

definition isspace :: "char \<Rightarrow> bool" where
  "isspace c = (of_char c \<in> set [9, 10, 11, 12, 13, 28, 29, 30, 31, 32, 133, 160 :: nat])"

definition strip :: "string \<Rightarrow> string" where
  "strip s = rev (dropWhile isspace (rev (dropWhile isspace s)))"

text \<open>
  \<^verbatim>\<open>os.path.join(a, b)\<close> and \<^verbatim>\<open>os.path.dirname(p)\<close> of the Python library, on POSIX
  paths.
\<close>

definition path_join :: "string \<Rightarrow> string \<Rightarrow> string" where
  "path_join a b =
     (if prefix ''/'' b then b
      else if a = [] \<or> suffix ''/'' a then a @ b
      else a @ ''/'' @ b)"

definition dirname :: "string \<Rightarrow> string" where
  "dirname p =
     (let head = rev (dropWhile (\<lambda>c. c \<noteq> CHR ''/'') (rev p))
      in if head \<noteq> [] \<and> \<not> list_all (\<lambda>c. c = CHR ''/'') head
         then rev (dropWhile (\<lambda>c. c = CHR ''/'') (rev head))
         else head)"

text \<open>\<^verbatim>\<open>not x\<close> for \<open>x\<close> that is \<^verbatim>\<open>None\<close> or a string.\<close>

definition falsy :: "string option \<Rightarrow> bool" where
  "falsy x = (case x of None \<Rightarrow> True | Some s \<Rightarrow> s = [])"

section \<open>verify-superclaude.py\<close>

definition import_check :: "string \<Rightarrow> string list" where
  \<open>import_check python_path = [python_path, ''-c'', ''import SuperClaude; print("OK")'']\<close>

definition details_check :: "string \<Rightarrow> string list" where
  \<open>details_check python_path =
     [python_path, ''-c'',
      ''import SuperClaude; import sys; '' @
      ''print(f"  Python: {sys.executable}"); '' @
      ''print(f"  Module: {SuperClaude.__file__}")'']\<close>

definition check_superclaude :: "system \<Rightarrow> string \<Rightarrow> string \<Rightarrow> bool io" where
  "check_superclaude os python_path env_name =
     try_except
       (bind_io (run os (import_check python_path) None) (\<lambda>result.
          if returncode result = 0 \<and> str_in ''OK'' (stdout result) then
            bind_io (print_line (Found env_name)) (\<lambda>_.
            bind_io (run os (details_check python_path) None) (\<lambda>details.
            bind_io (if returncode details = 0
                     then print_line (Details (strip (stdout details)))
                     else return_io ()) (\<lambda>_.
            return_io True)))
          else
            bind_io (print_line (NotFound env_name)) (\<lambda>_.
            bind_io (if stderr result \<noteq> []
                     then print_line (ErrorText (strip (stderr result)))
                     else return_io ()) (\<lambda>_.
            return_io False))))
       (\<lambda>e. case e of
               FileNotFoundError \<Rightarrow>
                 bind_io (print_line (PythonNotFound env_name python_path)) (\<lambda>_. return_io False)
             | _ \<Rightarrow>
                 bind_io (print_line (ErrorMsg env_name e)) (\<lambda>_. return_io False))"

text \<open>
  The loop over \<^verbatim>\<open>environments\<close>, pairs of \<open>env_name\<close> and \<open>python_path\<close>, with the
  counter \<open>found_count\<close> it updates.
\<close>

fun environments_loop :: "system \<Rightarrow> (string \<times> string) list \<Rightarrow> nat \<Rightarrow> nat io" where
  "environments_loop os [] found_count = return_io found_count"
| "environments_loop os ((env_name, python_path) # rest) found_count =
     bind_io (check_superclaude os python_path env_name) (\<lambda>found.
     bind_io (print_line Blank) (\<lambda>_.
     environments_loop os rest (if found then found_count + 1 else found_count)))"

text \<open>The list \<^verbatim>\<open>environments\<close> of the script, \<open>cwd\<close> being \<^verbatim>\<open>os.getcwd()\<close>.\<close>

definition environments :: "string \<Rightarrow> (string \<times> string) list" where
  "environments cwd =
     [(''System Python'', ''python3''),
      (''Project venv'', path_join cwd ''venv/bin/python''),
      (''Project .venv'', path_join cwd ''.venv/bin/python''),
      (''Parent venv'', path_join (dirname cwd) ''venv/bin/python'')]"

section \<open>test-simple-fix.py\<close>

text \<open>
  The loop over \<^verbatim>\<open>python_paths\<close>, pairs of \<open>name\<close> and \<open>python_path\<close>, the latter
  \<^verbatim>\<open>None\<close> when it comes from an environment variable that is not set. The variable
  \<open>working_python\<close> is \<^verbatim>\<open>None\<close> before the loop. The bare \<^verbatim>\<open>except:\<close> takes every
  exception.
\<close>

fun python_paths_loop ::
  "system \<Rightarrow> (string \<times> string option) list \<Rightarrow> string option \<Rightarrow> (string option) io" where
  "python_paths_loop os [] working_python = return_io working_python"
| "python_paths_loop os ((name, python_path) # rest) working_python =
     (case python_path of
        None \<Rightarrow>
          bind_io (print_line (NotSet name)) (\<lambda>_. python_paths_loop os rest working_python)
      | Some p \<Rightarrow>
          if p = [] then
            bind_io (print_line (NotSet name)) (\<lambda>_. python_paths_loop os rest working_python)
          else
            bind_io
              (try_except
                 (bind_io (run os (import_check p) None) (\<lambda>result.
                    if returncode result = 0 then
                      bind_io (print_line (PathFound name p)) (\<lambda>_.
                      return_io (if falsy working_python then Some p else working_python))
                    else
                      bind_io (print_line (PathNotFound name p)) (\<lambda>_.
                      return_io working_python)))
                 (\<lambda>e. bind_io (print_line (NotAccessible name p)) (\<lambda>_.
                      return_io working_python)))
              (\<lambda>working_python'. python_paths_loop os rest working_python'))"

text \<open>
  The list \<^verbatim>\<open>python_paths\<close> of the script, \<open>environ\<close> being \<^verbatim>\<open>os.environ\<close>.
\<close>

definition python_paths :: "(string \<rightharpoonup> string) \<Rightarrow> string \<Rightarrow> (string \<times> string option) list" where
  "python_paths environ cwd =
     [(''SUPERCLAUDE_PYTHON'', environ ''SUPERCLAUDE_PYTHON''),
      (''System python3'', Some ''python3''),
      (''Venv python'', Some (path_join cwd ''venv/bin/python''))]"

section \<open>test-bridge-functionality.py\<close>

definition import_only :: "string \<Rightarrow> string list" where
  "import_only py = [py, ''-c'', ''import SuperClaude'']"

text \<open>
  The loop that looks for \<open>python_cmd\<close>. The variable is \<^verbatim>\<open>None\<close> before the loop and
  its only assignment is followed by \<^verbatim>\<open>break\<close>, so the loop returns the value at once;
  \<^verbatim>\<open>except: pass\<close> goes on to the next entry.
\<close>

fun python_cmd_loop :: "system \<Rightarrow> string list \<Rightarrow> (string option) io" where
  "python_cmd_loop os [] = return_io None"
| "python_cmd_loop os (py # rest) =
     (if py \<noteq> [] \<and> py \<noteq> [] then
        bind_io
          (try_except
             (bind_io (run os (import_only py) None) (\<lambda>result.
                return_io (if returncode result = 0 then Some py else None)))
             (\<lambda>e. return_io None))
          (\<lambda>python_cmd.
             case python_cmd of
               Some found \<Rightarrow> return_io (Some found)
             | None \<Rightarrow> python_cmd_loop os rest)
      else python_cmd_loop os rest)"

text \<open>
  The list the loop goes through, \<^verbatim>\<open>os.environ.get("SUPERCLAUDE_PYTHON", "")\<close> last.
\<close>

definition python_cmd_candidates :: "(string \<rightharpoonup> string) \<Rightarrow> string list" where
  "python_cmd_candidates environ =
     [''python3'', ''./venv/bin/python'',
      (case environ ''SUPERCLAUDE_PYTHON'' of None \<Rightarrow> [] | Some v \<Rightarrow> v)]"

text \<open>The list \<^verbatim>\<open>test_commands\<close>.\<close>

definition test_commands :: "string \<Rightarrow> (string \<times> string list) list" where
  "test_commands python_cmd =
     [(''Version check'', [python_cmd, ''-m'', ''SuperClaude'', ''--version'']),
      (''Help command'', [python_cmd, ''-m'', ''SuperClaude'', ''--help'']),
      (''List personas'', [python_cmd, ''-m'', ''SuperClaude'', ''list-personas''])]"

text \<open>
  The loop over \<^verbatim>\<open>test_commands\<close>, pairs of \<open>test_name\<close> and \<open>cmd\<close>, each run with
  \<^verbatim>\<open>timeout=5\<close>.
\<close>

definition test_command :: "system \<Rightarrow> string \<Rightarrow> string list \<Rightarrow> unit io" where
  "test_command os test_name cmd =
     bind_io (print_line (Testing test_name)) (\<lambda>_.
     bind_io (print_line (Command cmd)) (\<lambda>_.
     try_except
       (bind_io (run os cmd (Some 5)) (\<lambda>result.
          if returncode result = 0 then
            bind_io (print_line Success) (\<lambda>_.
            if stdout result \<noteq> [] then print_line (OutputPreview (take 100 (stdout result)))
            else return_io ())
          else
            bind_io (print_line (FailedWithCode (returncode result))) (\<lambda>_.
            if stderr result \<noteq> [] then print_line (ErrorPreview (take 200 (stderr result)))
            else return_io ())))
       (\<lambda>e. case e of
               TimeoutExpired \<Rightarrow> print_line TimedOut
             | _ \<Rightarrow> print_line (TestError e))))"

fun test_commands_loop :: "system \<Rightarrow> (string \<times> string list) list \<Rightarrow> unit io" where
  "test_commands_loop os [] = return_io ()"
| "test_commands_loop os ((test_name, cmd) # rest) =
     bind_io (test_command os test_name cmd) (\<lambda>_. test_commands_loop os rest)"

section \<open>The scripts on a standard output that can refuse a line\<close>

text \<open>
  \<open>check_superclaude\<close> and the loops of verify-superclaude.py and test-simple-fix.py once
  more, statement by statement as above, every \<^verbatim>\<open>print\<close> now going to the standard output
  \<open>out\<close>. A \<^verbatim>\<open>print\<close> inside a \<^verbatim>\<open>try\<close> that raises is taken by its handlers; a
  \<^verbatim>\<open>print\<close> inside a handler, or outside the \<^verbatim>\<open>try\<close>, that raises is taken by nothing.
  The loop of test-bridge-functionality.py that looks for \<open>python_cmd\<close> prints nothing.
\<close>

definition check_superclaude_on :: "console \<Rightarrow> system \<Rightarrow> string \<Rightarrow> string \<Rightarrow> bool io" where
  "check_superclaude_on out os python_path env_name =
     try_except
       (bind_io (run os (import_check python_path) None) (\<lambda>result.
          if returncode result = 0 \<and> str_in ''OK'' (stdout result) then
            bind_io (print_on out (Found env_name)) (\<lambda>_.
            bind_io (run os (details_check python_path) None) (\<lambda>details.
            bind_io (if returncode details = 0
                     then print_on out (Details (strip (stdout details)))
                     else return_io ()) (\<lambda>_.
            return_io True)))
          else
            bind_io (print_on out (NotFound env_name)) (\<lambda>_.
            bind_io (if stderr result \<noteq> []
                     then print_on out (ErrorText (strip (stderr result)))
                     else return_io ()) (\<lambda>_.
            return_io False))))
       (\<lambda>e. case e of
               FileNotFoundError \<Rightarrow>
                 bind_io (print_on out (PythonNotFound env_name python_path)) (\<lambda>_.
                 return_io False)
             | _ \<Rightarrow>
                 bind_io (print_on out (ErrorMsg env_name e)) (\<lambda>_. return_io False))"

fun environments_loop_on ::
  "console \<Rightarrow> system \<Rightarrow> (string \<times> string) list \<Rightarrow> nat \<Rightarrow> nat io" where
  "environments_loop_on out os [] found_count = return_io found_count"
| "environments_loop_on out os ((env_name, python_path) # rest) found_count =
     bind_io (check_superclaude_on out os python_path env_name) (\<lambda>found.
     bind_io (print_on out Blank) (\<lambda>_.
     environments_loop_on out os rest (if found then found_count + 1 else found_count)))"

fun python_paths_loop_on ::
  "console \<Rightarrow> system \<Rightarrow> (string \<times> string option) list \<Rightarrow> string option \<Rightarrow>
   (string option) io" where
  "python_paths_loop_on out os [] working_python = return_io working_python"
| "python_paths_loop_on out os ((name, python_path) # rest) working_python =
     (case python_path of
        None \<Rightarrow>
          bind_io (print_on out (NotSet name)) (\<lambda>_.
          python_paths_loop_on out os rest working_python)
      | Some p \<Rightarrow>
          if p = [] then
            bind_io (print_on out (NotSet name)) (\<lambda>_.
            python_paths_loop_on out os rest working_python)
          else
            bind_io
              (try_except
                 (bind_io (run os (import_check p) None) (\<lambda>result.
                    if returncode result = 0 then
                      bind_io (print_on out (PathFound name p)) (\<lambda>_.
                      return_io (if falsy working_python then Some p else working_python))
                    else
                      bind_io (print_on out (PathNotFound name p)) (\<lambda>_.
                      return_io working_python)))
                 (\<lambda>e. bind_io (print_on out (NotAccessible name p)) (\<lambda>_.
                      return_io working_python)))
              (\<lambda>working_python'. python_paths_loop_on out os rest working_python'))"

section \<open>Reading the environment and the output\<close>

text \<open>The child run by \<open>cmd\<close> exits with status zero.\<close>

definition exits_zero :: "system \<Rightarrow> string list \<Rightarrow> bool" where
  "exits_zero os cmd = (case os cmd of Exits secs rc out err \<Rightarrow> rc = 0 | _ \<Rightarrow> False)"

text \<open>
  An entry of \<^verbatim>\<open>python_paths\<close> succeeds when it is set and its import check exits with
  zero, the test of test-simple-fix.py; it blocks when the child of its check never exits.
\<close>

definition path_succeeds :: "system \<Rightarrow> string \<times> string option \<Rightarrow> bool" where
  "path_succeeds os c =
     (case snd c of None \<Rightarrow> False | Some p \<Rightarrow> p \<noteq> [] \<and> exits_zero os (import_check p))"

definition path_blocks :: "system \<Rightarrow> string \<times> string option \<Rightarrow> bool" where
  "path_blocks os c =
     (case snd c of None \<Rightarrow> False | Some p \<Rightarrow> p \<noteq> [] \<and> os (import_check p) = Hangs)"

text \<open>The same for an entry of the list of test-bridge-functionality.py.\<close>

definition py_succeeds :: "system \<Rightarrow> string \<Rightarrow> bool" where
  "py_succeeds os py = (py \<noteq> [] \<and> exits_zero os (import_only py))"

definition py_blocks :: "system \<Rightarrow> string \<Rightarrow> bool" where
  "py_blocks os py = (py \<noteq> [] \<and> os (import_only py) = Hangs)"



text \<open>
  Lines that carry error text, lines that carry the resolved locations, and the
  environment a verdict line is about.
\<close>

fun is_diagnostic :: "line \<Rightarrow> bool" where
  "is_diagnostic (ErrorText text) = True"
| "is_diagnostic (PythonNotFound env_name python_path) = True"
| "is_diagnostic (ErrorMsg env_name e) = True"
| "is_diagnostic l = False"

fun is_metadata :: "line \<Rightarrow> bool" where
  "is_metadata (Details text) = True"
| "is_metadata l = False"


text \<open>
  The lines whose text, as the scripts write it, holds a character outside ASCII: the
  check mark or the cross in front of a verdict.
\<close>

fun has_mark :: "line \<Rightarrow> bool" where
  "has_mark (Found env_name) = True"
| "has_mark (NotFound env_name) = True"
| "has_mark (PythonNotFound env_name python_path) = True"
| "has_mark (ErrorMsg env_name e) = True"
| "has_mark (PathFound name python_path) = True"
| "has_mark (PathNotFound name python_path) = True"
| "has_mark (NotAccessible name python_path) = True"
| "has_mark Success = True"
| "has_mark (FailedWithCode rc) = True"
| "has_mark TimedOut = True"
| "has_mark (TestError e) = True"
| "has_mark l = False"





section \<open>Sample systems\<close>

text \<open>
  A machine on which \<^verbatim>\<open>python3\<close> and the interpreter of a virtual environment both have
  the package, a second interpreter lacks it, and nothing else exists.
\<close>

definition sample_system :: system where
  "sample_system cmd =
     (if cmd = import_check ''python3'' then Exits 1 0 ''OK\<newline>'' []
      else if cmd = details_check ''python3'' then
        Exits 1 0 ''  Python: /usr/bin/python3\<newline>  Module: /usr/lib/SuperClaude/__init__.py\<newline>'' []
      else if cmd = import_only ''python3'' then Exits 1 0 [] []
      else if cmd = import_check ''/work/venv/bin/python'' then Exits 1 0 ''OK\<newline>'' []
      else if cmd = details_check ''/work/venv/bin/python'' then Exits 1 1 [] ''Traceback\<newline>''
      else if cmd = import_only ''./venv/bin/python'' then Exits 1 0 [] []
      else if cmd = import_check ''/work/.venv/bin/python'' then
        Exits 1 1 [] ''ModuleNotFoundError: No module named SuperClaude\<newline>''
      else NoSuchFile)"

text \<open>The same machine seen later: the same interpreters have the package, the timing and
  the texts differ.\<close>

definition later_system :: system where
  "later_system cmd =
     (if cmd = import_check ''python3'' then Exits 2 0 ''warning\<newline>OK\<newline>'' ''note\<newline>''
      else if cmd = details_check ''python3'' then
        Exits 1 0 ''  Python: /usr/bin/python3\<newline>  Module: /usr/lib/SuperClaude/__init__.py\<newline>'' []
      else if cmd = import_only ''python3'' then Exits 3 0 ''x'' []
      else if cmd = import_check ''/work/venv/bin/python'' then Exits 1 0 ''OK\<newline>'' []
      else if cmd = details_check ''/work/venv/bin/python'' then Exits 1 1 [] ''Traceback\<newline>''
      else if cmd = import_only ''./venv/bin/python'' then Exits 1 0 [] []
      else if cmd = import_check ''/work/.venv/bin/python'' then Exits 1 2 [] []
      else Fails ''[Errno 13] Permission denied'')"

text \<open>A machine on which none of the interpreters exists.\<close>

definition bare_system :: system where
  "bare_system cmd = NoSuchFile"

text \<open>
  A standard output that takes every line, and one that encodes ASCII only, so that
  \<^verbatim>\<open>print\<close> raises \<^verbatim>\<open>UnicodeEncodeError\<close> on a line with a mark.
\<close>

definition plain_stdout :: console where
  "plain_stdout l = None"

definition ascii_stdout :: console where
  "ascii_stdout l = (if has_mark l then Some ''ascii codec cannot encode character'' else None)"

text \<open>
  The lists of verify-superclaude.py and of test-simple-fix.py when the scripts run in
  \<^verbatim>\<open>/work\<close> with \<^verbatim>\<open>SUPERCLAUDE_PYTHON\<close> not set, and a list for the loop of
  test-bridge-functionality.py.
\<close>

definition sample_environments :: "(string \<times> string) list" where
  "sample_environments =
     [(''System Python'', ''python3''),
      (''Project venv'', ''/work/venv/bin/python''),
      (''Project .venv'', ''/work/.venv/bin/python''),
      (''Parent venv'', ''/venv/bin/python'')]"

definition sample_python_paths :: "(string \<times> string option) list" where
  "sample_python_paths =
     [(''SUPERCLAUDE_PYTHON'', None),
      (''System python3'', Some ''python3''),
      (''Venv python'', Some ''/work/venv/bin/python'')]"

definition sample_pys :: "string list" where
  "sample_pys = [''/opt/none/python'', ''python3'', ''./venv/bin/python'', []]"

text \<open>A program that is no interpreter: it exits with zero and prints nothing.\<close>

definition silent_system :: system where
  "silent_system cmd = (if cmd = import_check ''/bin/true'' then Exits 1 0 [] [] else NoSuchFile)"

text \<open>An interpreter whose import fails with three hundred characters of error text.\<close>

definition noisy_system :: system where
  "noisy_system cmd =
     (if cmd = import_check ''python3'' then Exits 1 1 [] (replicate 300 CHR ''x'')
      else NoSuchFile)"

text \<open>
  A machine without \<^verbatim>\<open>python3\<close>, on which the interpreter of one virtual environment,
  or a wrapper in its place, never exits, and the interpreter of another has the package.
\<close>

definition stuck_system :: system where
  "stuck_system cmd =
     (case cmd of
        [] \<Rightarrow> NoSuchFile
      | program # arguments \<Rightarrow>
          if program = ''/work/venv/bin/python'' then Hangs
          else if cmd = import_check ''/work/.venv/bin/python'' then Exits 1 0 ''OK\<newline>'' []
          else NoSuchFile)"

text \<open>
  An interpreter that has the package, while running it a second time for the details
  raises in the script (here the captured output cannot be decoded).
\<close>

definition undecodable_system :: system where
  "undecodable_system cmd =
     (if cmd = import_check ''python3'' then Exits 1 0 ''OK\<newline>'' []
      else if cmd = details_check ''python3'' then
        Fails ''utf-8 codec cannot decode byte 0xe9 in position 24''
      else NoSuchFile)"

section \<open>Properties of the probing code\<close>

text \<open>
  The lemmas of the first subsections are about the definitions with \<open>print_line\<close>: the
  scripts on a standard output that takes every line. What becomes of the scripts when
  \<^verbatim>\<open>print\<close> raises is the matter of the last subsection.
\<close>

subsection \<open>\<open>check_superclaude\<close> and the loop of verify-superclaude.py\<close>

lemmas io_defs = bind_io_def try_except_def return_io_def print_line_def run_def subprocess_run_def

lemma str_in_iff: "str_in sub s \<longleftrightarrow> sublist sub s"
  by (induction s) (auto simp: sublist_Cons_right)

lemma check_NoSuchFile:
  "os (import_check p) = NoSuchFile \<Longrightarrow>
   check_superclaude os p n = ([Call (import_check p), Print (PythonNotFound n p)], Returned False)"
  by (simp add: check_superclaude_def io_defs)

lemma check_Fails:
  "os (import_check p) = Fails msg \<Longrightarrow>
   check_superclaude os p n = ([Call (import_check p), Print (ErrorMsg n (OtherException msg))], Returned False)"
  by (simp add: check_superclaude_def io_defs)

lemma check_Hangs:
  "os (import_check p) = Hangs \<Longrightarrow>
   check_superclaude os p n = ([Call (import_check p)], Blocked)"
  by (simp add: check_superclaude_def io_defs)

lemma check_Exits_bad:
  "os (import_check p) = Exits secs rc out err \<Longrightarrow> \<not> (rc = 0 \<and> str_in ''OK'' out) \<Longrightarrow>
   check_superclaude os p n =
     ([Call (import_check p), Print (NotFound n)] @
      (if err \<noteq> [] then [Print (ErrorText (strip err))] else []), Returned False)"
  by (auto simp add: check_superclaude_def io_defs)

lemma check_Exits_good:
  "os (import_check p) = Exits secs rc out err \<Longrightarrow> rc = 0 \<Longrightarrow> str_in ''OK'' out \<Longrightarrow>
   check_superclaude os p n =
     (case os (details_check p) of
        NoSuchFile \<Rightarrow>
          ([Call (import_check p), Print (Found n), Call (details_check p),
            Print (PythonNotFound n p)], Returned False)
      | Fails msg \<Rightarrow>
          ([Call (import_check p), Print (Found n), Call (details_check p),
            Print (ErrorMsg n (OtherException msg))], Returned False)
      | Exits secs' rc' out' err' \<Rightarrow>
          ([Call (import_check p), Print (Found n), Call (details_check p)] @
           (if rc' = 0 then [Print (Details (strip out'))] else []), Returned True)
      | Hangs \<Rightarrow>
          ([Call (import_check p), Print (Found n), Call (details_check p)], Blocked))"
  by (simp add: check_superclaude_def io_defs split: proc.splits)

lemma check_cases:
  obtains (missing) "os (import_check p) = NoSuchFile"
  | (fails) msg where "os (import_check p) = Fails msg"
  | (hangs) "os (import_check p) = Hangs"
  | (bad) secs rc out err where "os (import_check p) = Exits secs rc out err" "\<not> (rc = 0 \<and> str_in ''OK'' out)"
  | (good) secs out err where "os (import_check p) = Exits secs 0 out err" "str_in ''OK'' out"
  by (cases "os (import_check p)") auto

lemma check_never_raises: "snd (check_superclaude os p n) \<noteq> Raised e"
proof (cases os p rule: check_cases)
  case good
  then show ?thesis
    by (simp add: check_Exits_good split: proc.splits)
qed (simp_all add: check_NoSuchFile check_Fails check_Hangs check_Exits_bad)




lemma env_loop_step:
  "environments_loop os ((n, p) # rest) k =
     (case snd (check_superclaude os p n) of
        Returned found \<Rightarrow>
          (fst (check_superclaude os p n) @ Print Blank #
             fst (environments_loop os rest (if found then k + 1 else k)),
           snd (environments_loop os rest (if found then k + 1 else k)))
      | Raised e \<Rightarrow> (fst (check_superclaude os p n), Raised e)
      | Blocked \<Rightarrow> (fst (check_superclaude os p n), Blocked))"
  by (cases "check_superclaude os p n")
     (simp add: bind_io_def print_line_def split: outcome.splits)

declare environments_loop.simps(2) [simp del]

lemma env_loop_never_raises: "snd (environments_loop os envs k) \<noteq> Raised e"
proof (induction envs arbitrary: k)
  case Nil
  then show ?case by (simp add: return_io_def)
next
  case (Cons c envs)
  obtain n p where c: "c = (n, p)" by (cases c)
  show ?case
    using Cons.IH check_never_raises [of os p n]
    by (simp add: c env_loop_step split: outcome.splits)
qed



subsection \<open>The loop of test-simple-fix.py\<close>

lemma paths_loop_unset:
  "falsy python_path \<Longrightarrow>
   python_paths_loop os ((name, python_path) # rest) wp =
     (Print (NotSet name) # fst (python_paths_loop os rest wp),
      snd (python_paths_loop os rest wp))"
  by (simp add: falsy_def io_defs split: option.splits)

lemma paths_loop_set:
  "p \<noteq> [] \<Longrightarrow>
   python_paths_loop os ((name, Some p) # rest) wp =
     (case os (import_check p) of
        Hangs \<Rightarrow> ([Call (import_check p)], Blocked)
      | Exits secs rc out err \<Rightarrow>
          if rc = 0 then
            (Call (import_check p) # Print (PathFound name p) #
               fst (python_paths_loop os rest (if falsy wp then Some p else wp)),
             snd (python_paths_loop os rest (if falsy wp then Some p else wp)))
          else
            (Call (import_check p) # Print (PathNotFound name p) #
               fst (python_paths_loop os rest wp),
             snd (python_paths_loop os rest wp))
      | _ \<Rightarrow>
          (Call (import_check p) # Print (NotAccessible name p) #
             fst (python_paths_loop os rest wp),
           snd (python_paths_loop os rest wp)))"
  by (simp add: io_defs split: proc.splits)

declare python_paths_loop.simps(2) [simp del]

lemma paths_cases:
  obtains (unset) "falsy (snd c)"
  | (set) p where "snd c = Some p" "p \<noteq> []"
  by (cases "snd c") (auto simp: falsy_def)

lemma paths_loop_never_raises: "snd (python_paths_loop os cands wp) \<noteq> Raised e"
proof (induction cands arbitrary: wp)
  case Nil
  then show ?case by (simp add: return_io_def)
next
  case (Cons c cands)
  obtain name path where c: "c = (name, path)" by (cases c)
  show ?case
  proof (cases c rule: paths_cases)
    case unset
    then show ?thesis using Cons.IH by (simp add: c paths_loop_unset)
  next
    case (set p)
    then show ?thesis using Cons.IH
      by (simp add: c paths_loop_set split: proc.splits)
  qed
qed

lemma paths_loop_select:
  "\<forall>c\<in>set cands. \<not> path_blocks os c \<Longrightarrow>
   snd (python_paths_loop os cands wp) =
     Returned (if falsy wp
               then (case find (path_succeeds os) cands of None \<Rightarrow> wp | Some c \<Rightarrow> snd c)
               else wp)"
proof (induction cands arbitrary: wp)
  case Nil
  then show ?case by (simp add: return_io_def)
next
  case (Cons c cands)
  obtain name path where c: "c = (name, path)" by (cases c)
  from Cons.prems have rest: "\<forall>c\<in>set cands. \<not> path_blocks os c" by simp
  note IH = Cons.IH [OF rest]
  show ?case
  proof (cases c rule: paths_cases)
    case unset
    then have "\<not> path_succeeds os c"
      by (auto simp: path_succeeds_def falsy_def split: option.splits)
    with unset show ?thesis
      by (simp add: c paths_loop_unset IH)
  next
    case (set p)
    with Cons.prems have "os (import_check p) \<noteq> Hangs"
      by (simp add: path_blocks_def)
    moreover from set have "path_succeeds os (name, path) = exits_zero os (import_check p)"
      by (simp add: path_succeeds_def c)
    moreover from set have "\<not> falsy (Some p)"
      by (simp add: falsy_def)
    ultimately show ?thesis using set
      by (auto simp add: c paths_loop_set IH exits_zero_def split: proc.splits)
  qed
qed

lemma paths_loop_skip_inside:
  "falsy python_path \<Longrightarrow>
   snd (python_paths_loop os (before @ (name, python_path) # rest) wp) =
   snd (python_paths_loop os (before @ rest) wp)"
proof (induction before arbitrary: wp)
  case Nil
  then show ?case by (simp add: paths_loop_unset)
next
  case (Cons c before)
  obtain n path where c: "c = (n, path)" by (cases c)
  show ?case
  proof (cases c rule: paths_cases)
    case unset
    then show ?thesis using Cons by (simp add: c paths_loop_unset)
  next
    case (set p)
    then show ?thesis using Cons
      by (simp add: c paths_loop_set split: proc.splits)
  qed
qed

subsection \<open>The loop of test-bridge-functionality.py\<close>

lemma cmd_loop_empty [simp]: "python_cmd_loop os ([] # rest) = python_cmd_loop os rest"
  by simp

lemma cmd_loop_step:
  "py \<noteq> [] \<Longrightarrow>
   python_cmd_loop os (py # rest) =
     (case os (import_only py) of
        Hangs \<Rightarrow> ([Call (import_only py)], Blocked)
      | Exits secs rc out err \<Rightarrow>
          if rc = 0 then ([Call (import_only py)], Returned (Some py))
          else (Call (import_only py) # fst (python_cmd_loop os rest),
                snd (python_cmd_loop os rest))
      | _ \<Rightarrow> (Call (import_only py) # fst (python_cmd_loop os rest),
              snd (python_cmd_loop os rest)))"
  by (simp add: io_defs split: proc.splits)

declare python_cmd_loop.simps(2) [simp del]

lemma cmd_loop_never_raises: "snd (python_cmd_loop os pys) \<noteq> Raised e"
proof (induction pys)
  case Nil
  then show ?case by (simp add: return_io_def)
next
  case (Cons py pys)
  show ?case
  proof (cases "py = []")
    case True
    then show ?thesis using Cons by simp
  next
    case False
    then show ?thesis using Cons
      by (simp add: cmd_loop_step split: proc.splits)
  qed
qed


lemma cmd_loop_agree:
  "\<forall>py\<in>set pys. py_succeeds os py = py_succeeds os' py \<and> \<not> py_blocks os py \<and> \<not> py_blocks os' py \<Longrightarrow>
   snd (python_cmd_loop os pys) = snd (python_cmd_loop os' pys)"
proof (induction pys)
  case Nil
  then show ?case by (simp add: return_io_def)
next
  case (Cons py pys)
  then have IH: "snd (python_cmd_loop os pys) = snd (python_cmd_loop os' pys)" by simp
  show ?case
  proof (cases "py = []")
    case True
    then show ?thesis using IH by simp
  next
    case False
    then show ?thesis using IH Cons.prems
      by (auto simp add: py_succeeds_def py_blocks_def exits_zero_def cmd_loop_step
               split: proc.splits)
  qed
qed

lemma cmd_loop_skip_inside:
  "python_cmd_loop os (before @ [] # rest) = python_cmd_loop os (before @ rest)"
proof (induction before)
  case Nil
  then show ?case by simp
next
  case (Cons py before)
  show ?case
  proof (cases "py = []")
    case True
    then show ?thesis using Cons by simp
  next
    case False
    then show ?thesis using Cons
      by (simp add: cmd_loop_step split: proc.splits)
  qed
qed

subsection \<open>The report read from the output\<close>





subsection \<open>The sample systems\<close>

lemmas cmd_defs = import_check_def details_check_def import_only_def

lemma sample_system_simps:
  "sample_system (import_check ''python3'') = Exits 1 0 ''OK\<newline>'' []"
  "sample_system (details_check ''python3'') =
     Exits 1 0 ''  Python: /usr/bin/python3\<newline>  Module: /usr/lib/SuperClaude/__init__.py\<newline>'' []"
  "sample_system (import_only ''python3'') = Exits 1 0 [] []"
  "sample_system (import_check ''/work/venv/bin/python'') = Exits 1 0 ''OK\<newline>'' []"
  "sample_system (details_check ''/work/venv/bin/python'') = Exits 1 1 [] ''Traceback\<newline>''"
  "sample_system (import_only ''./venv/bin/python'') = Exits 1 0 [] []"
  "sample_system (import_check ''/work/.venv/bin/python'') =
     Exits 1 1 [] ''ModuleNotFoundError: No module named SuperClaude\<newline>''"
  "sample_system (import_check ''/venv/bin/python'') = NoSuchFile"
  "sample_system (import_only ''/opt/none/python'') = NoSuchFile"
  by (simp_all add: sample_system_def cmd_defs)

lemma later_system_simps:
  "later_system (import_check ''python3'') = Exits 2 0 ''warning\<newline>OK\<newline>'' ''note\<newline>''"
  "later_system (details_check ''python3'') =
     Exits 1 0 ''  Python: /usr/bin/python3\<newline>  Module: /usr/lib/SuperClaude/__init__.py\<newline>'' []"
  "later_system (import_only ''python3'') = Exits 3 0 ''x'' []"
  "later_system (import_check ''/work/venv/bin/python'') = Exits 1 0 ''OK\<newline>'' []"
  "later_system (details_check ''/work/venv/bin/python'') = Exits 1 1 [] ''Traceback\<newline>''"
  "later_system (import_only ''./venv/bin/python'') = Exits 1 0 [] []"
  "later_system (import_check ''/work/.venv/bin/python'') = Exits 1 2 [] []"
  "later_system (import_only ''/opt/none/python'') = Fails ''[Errno 13] Permission denied''"
  by (simp_all add: later_system_def cmd_defs)

lemma sample_lists:
  "environments ''/work'' = sample_environments"
  "python_paths Map.empty ''/work'' = sample_python_paths"
  by (simp_all add: environments_def python_paths_def sample_environments_def
        sample_python_paths_def path_join_def dirname_def suffix_to_prefix)

lemma strip_replicate: "\<not> isspace c \<Longrightarrow> strip (replicate n c) = replicate n c"
  by (simp add: strip_def dropWhile_replicate)

lemma sample_checks:
  "check_superclaude sample_system ''python3'' ''System Python'' =
     ([Call (import_check ''python3''), Print (Found ''System Python''),
       Call (details_check ''python3''),
       Print (Details ''Python: /usr/bin/python3\<newline>  Module: /usr/lib/SuperClaude/__init__.py'')],
      Returned True)"
  "check_superclaude sample_system ''/work/venv/bin/python'' ''Project venv'' =
     ([Call (import_check ''/work/venv/bin/python''), Print (Found ''Project venv''),
       Call (details_check ''/work/venv/bin/python'')],
      Returned True)"
  "check_superclaude sample_system ''/work/.venv/bin/python'' ''Project .venv'' =
     ([Call (import_check ''/work/.venv/bin/python''), Print (NotFound ''Project .venv''),
       Print (ErrorText ''ModuleNotFoundError: No module named SuperClaude'')],
      Returned False)"
  "check_superclaude sample_system ''/venv/bin/python'' ''Parent venv'' =
     ([Call (import_check ''/venv/bin/python''),
       Print (PythonNotFound ''Parent venv'' ''/venv/bin/python'')],
      Returned False)"
  by (simp_all add: check_superclaude_def io_defs sample_system_simps strip_def isspace_def)


lemma silent_system_simps:
  "silent_system (import_check ''/bin/true'') = Exits 1 0 [] []"
  by (simp add: silent_system_def)

lemma noisy_system_simps:
  "noisy_system (import_check ''python3'') = Exits 1 1 [] (replicate 300 CHR ''x'')"
  by (simp add: noisy_system_def)

lemma stuck_system_simps:
  "stuck_system (import_check ''/work/venv/bin/python'') = Hangs"
  "stuck_system [''/work/venv/bin/python'', ''-m'', ''SuperClaude'', ''--version''] = Hangs"
  "stuck_system (import_check ''python3'') = NoSuchFile"
  "stuck_system (import_check ''/work/.venv/bin/python'') = Exits 1 0 ''OK\<newline>'' []"
  by (simp_all add: stuck_system_def cmd_defs)

lemma undecodable_system_simps:
  "undecodable_system (import_check ''python3'') = Exits 1 0 ''OK\<newline>'' []"
  "undecodable_system (details_check ''python3'') =
     Fails ''utf-8 codec cannot decode byte 0xe9 in position 24''"
  by (simp_all add: undecodable_system_def cmd_defs)

subsection \<open>What \<open>check_superclaude\<close> depends on\<close>

lemma check_depends_on_two_commands:
  assumes "os (import_check p) = os' (import_check p)"
    and "os (details_check p) = os' (details_check p)"
  shows "check_superclaude os p n = check_superclaude os' p n"
proof (cases os p rule: check_cases)
  case missing
  moreover from missing assms have "os' (import_check p) = NoSuchFile" by simp
  ultimately show ?thesis by (simp add: check_NoSuchFile)
next
  case (fails msg)
  moreover from fails assms have "os' (import_check p) = Fails msg" by simp
  ultimately show ?thesis by (simp add: check_Fails)
next
  case hangs
  moreover from hangs assms have "os' (import_check p) = Hangs" by simp
  ultimately show ?thesis by (simp add: check_Hangs)
next
  case (bad secs rc out err)
  moreover from bad assms have "os' (import_check p) = Exits secs rc out err" by simp
  ultimately show ?thesis
    using check_Exits_bad [where os = os and p = p and n = n]
      check_Exits_bad [where os = os' and p = p and n = n]
    by simp
next
  case (good secs out err)
  moreover from good assms have "os' (import_check p) = Exits secs 0 out err" by simp
  ultimately show ?thesis
    using check_Exits_good [where os = os and p = p and n = n]
      check_Exits_good [where os = os' and p = p and n = n] assms(2)
    by simp
qed

subsection \<open>The scripts when \<^verbatim>\<open>print\<close> can raise\<close>

text \<open>
  On a standard output that takes every line the definitions with \<open>print_on\<close> are the
  definitions with \<open>print_line\<close>, on which the lemmas above are proved.
\<close>

lemma print_on_plain: "print_on (\<lambda>l. None) = print_line"
  by (rule ext) (simp add: print_on_def print_line_def)

lemma plain_stdout_eq: "plain_stdout = (\<lambda>l. None)"
  by (rule ext) (simp add: plain_stdout_def)

lemma check_on_plain: "check_superclaude_on (\<lambda>l. None) os p n = check_superclaude os p n"
  unfolding check_superclaude_on_def check_superclaude_def print_on_plain by (rule refl)

lemma env_loop_on_plain:
  "environments_loop_on (\<lambda>l. None) os envs k = environments_loop os envs k"
proof (induction envs arbitrary: k)
  case Nil
  then show ?case by simp
next
  case (Cons c envs)
  obtain n p where c: "c = (n, p)" by (cases c)
  show ?case
    unfolding c environments_loop_on.simps environments_loop.simps check_on_plain
      print_on_plain Cons.IH
    by (rule refl)
qed

lemma paths_loop_on_plain:
  "python_paths_loop_on (\<lambda>l. None) os entries wp = python_paths_loop os entries wp"
proof (induction entries arbitrary: wp)
  case Nil
  then show ?case by simp
next
  case (Cons c entries)
  obtain name path where c: "c = (name, path)" by (cases c)
  show ?case
    unfolding c python_paths_loop_on.simps python_paths_loop.simps print_on_plain Cons.IH
    by (rule refl)
qed

lemma print_on_raises:
  "snd (print_on out l) = Raised e \<Longrightarrow> \<exists>l msg. out l = Some msg \<and> e = OtherException msg"
  by (auto simp: print_on_def split: option.splits)

lemma check_on_raises:
  "snd (check_superclaude_on out os p n) = Raised e \<Longrightarrow>
   \<exists>l msg. out l = Some msg \<and> e = OtherException msg"
  by (auto simp: check_superclaude_on_def print_on_def io_defs
           split: proc.splits option.splits if_splits exn.splits)

lemma check_on_NoSuchFile:
  "os (import_check p) = NoSuchFile \<Longrightarrow>
   check_superclaude_on out os p n =
     (case out (PythonNotFound n p) of
        None \<Rightarrow> ([Call (import_check p), Print (PythonNotFound n p)], Returned False)
      | Some msg \<Rightarrow> ([Call (import_check p)], Raised (OtherException msg)))"
  by (simp add: check_superclaude_on_def print_on_def io_defs split: option.splits)

lemma check_on_Fails:
  "os (import_check p) = Fails m \<Longrightarrow>
   check_superclaude_on out os p n =
     (case out (ErrorMsg n (OtherException m)) of
        None \<Rightarrow> ([Call (import_check p), Print (ErrorMsg n (OtherException m))], Returned False)
      | Some msg \<Rightarrow> ([Call (import_check p)], Raised (OtherException msg)))"
  by (simp add: check_superclaude_on_def print_on_def io_defs split: option.splits)

lemma env_loop_on_after_false:
  assumes "snd (check_superclaude_on out os p n) = Returned False" and "out Blank = None"
  shows "environments_loop_on out os ((n, p) # rest) k =
     (fst (check_superclaude_on out os p n) @ Print Blank # fst (environments_loop_on out os rest k),
      snd (environments_loop_on out os rest k))"
proof -
  obtain evs where "check_superclaude_on out os p n = (evs, Returned False)"
    using assms(1) by (cases "check_superclaude_on out os p n") auto
  then show ?thesis
    using assms(2) by (simp add: bind_io_def print_on_def)
qed

lemma env_loop_on_raises:
  "snd (environments_loop_on out os envs k) = Raised e \<Longrightarrow>
   \<exists>l msg. out l = Some msg \<and> e = OtherException msg"
proof (induction envs arbitrary: k)
  case Nil
  then show ?case by (simp add: return_io_def)
next
  case (Cons c envs)
  obtain n p where c: "c = (n, p)" by (cases c)
  obtain evs r where r: "check_superclaude_on out os p n = (evs, r)"
    by (cases "check_superclaude_on out os p n")
  show ?case
  proof (cases r)
    case (Returned found)
    show ?thesis
    proof (cases "out Blank")
      case None
      with Cons.prems r Returned have
        "snd (environments_loop_on out os envs (if found then k + 1 else k)) = Raised e"
        by (simp add: c bind_io_def print_on_def)
      then show ?thesis by (rule Cons.IH)
    next
      case (Some msg)
      with Cons.prems r Returned have "e = OtherException msg"
        by (simp add: c bind_io_def print_on_def)
      with Some show ?thesis by blast
    qed
  next
    case (Raised e')
    with Cons.prems r have "snd (check_superclaude_on out os p n) = Raised e"
      by (simp add: c bind_io_def)
    then show ?thesis by (rule check_on_raises)
  next
    case Blocked
    with Cons.prems r show ?thesis by (simp add: c bind_io_def)
  qed
qed

lemma paths_loop_on_unusable:
  assumes "p \<noteq> []"
    and "os (import_check p) = NoSuchFile \<or> os (import_check p) = Fails m"
    and "out (NotAccessible name p) = None"
  shows "python_paths_loop_on out os ((name, Some p) # rest) wp =
     (Call (import_check p) # Print (NotAccessible name p) #
        fst (python_paths_loop_on out os rest wp),
      snd (python_paths_loop_on out os rest wp))"
  using assms by (auto simp add: io_defs print_on_def)

lemma cmd_loop_unusable:
  assumes "py \<noteq> []"
    and "os (import_only py) = NoSuchFile \<or> os (import_only py) = Fails m"
  shows "python_cmd_loop os (py # pys) =
     (Call (import_only py) # fst (python_cmd_loop os pys), snd (python_cmd_loop os pys))"
  using assms by (auto simp add: cmd_loop_step)

lemma paths_loop_on_raises:
  "snd (python_paths_loop_on out os entries wp) = Raised e \<Longrightarrow>
   \<exists>l msg. out l = Some msg \<and> e = OtherException msg"
proof (induction entries arbitrary: wp)
  case Nil
  then show ?case by (simp add: return_io_def)
next
  case (Cons c entries)
  obtain name path where c: "c = (name, path)" by (cases c)
  show ?case
    using Cons.prems Cons.IH
    by (simp add: c io_defs print_on_def
          split: option.splits if_splits proc.splits) blast+
qed

declare environments_loop_on.simps(2) [simp del] python_paths_loop_on.simps(2) [simp del]

lemmas loop_on_simps = environments_loop_on.simps(2) python_paths_loop_on.simps(2)

lemma bare_system_simps: "bare_system cmd = NoSuchFile"
  by (simp add: bare_system_def)

lemma script_lists_not_empty:
  "environments cwd \<noteq> []" "python_paths environ cwd \<noteq> []" "python_cmd_candidates environ \<noteq> []"
  by (simp_all add: environments_def python_paths_def python_cmd_candidates_def)

text \<open>
  The loop of test-simple-fix.py takes a program that exits with zero and prints nothing
  for an interpreter with the package; \<open>check_superclaude\<close>, which runs the same command,
  does not.
\<close>

lemma marker_not_tested_by_simple_fix:
  "python_paths_loop silent_system [(''SUPERCLAUDE_PYTHON'', Some ''/bin/true'')] None =
     ([Call (import_check ''/bin/true''),
       Print (PathFound ''SUPERCLAUDE_PYTHON'' ''/bin/true'')],
      Returned (Some ''/bin/true''))"
  "check_superclaude silent_system ''/bin/true'' ''System Python'' =
     ([Call (import_check ''/bin/true''), Print (NotFound ''System Python'')], Returned False)"
  by (simp_all add: silent_system_simps paths_loop_set falsy_def return_io_def
        check_Exits_bad [where os = silent_system and p = "''/bin/true''", OF silent_system_simps])

section \<open>The claims\<close>





text \<open>
  C3, as the claim has it: success is recorded exactly when the child exits with zero and
  the marker is in its output, and otherwise the error output, cut to a bounded length, is
  the diagnostic. \<open>check_superclaude\<close> does not cut: three hundred characters of error
  output are printed as three hundred characters.
\<close>

theorem error_text_counterexample:
  "noisy_system (import_check ''python3'') = Exits 1 1 [] (replicate 300 CHR ''x'') \<and>
   check_superclaude noisy_system ''python3'' ''System Python'' =
     ([Call (import_check ''python3''), Print (NotFound ''System Python''),
       Print (ErrorText (replicate 300 CHR ''x''))],
      Returned False) \<and>
   length (replicate 300 CHR ''x'') = 300"
  by (simp add: noisy_system_simps
        check_Exits_bad [where os = noisy_system and p = "''python3''", OF noisy_system_simps]
        strip_replicate isspace_def)

text \<open>
  C3, amended. On a standard output that takes every line and for a check that comes to
  an end, \<open>check_superclaude\<close> returns true only if the child exited with zero and
  \<^verbatim>\<open>OK\<close> occurs in its output, and it does return true then if the run for the details
  comes to an end as well; when the child exits with another status or the marker is
  missing it returns false after the line \<open>NotFound\<close> and, if the error output is not
  empty, that output with the white space at both ends removed and nothing else cut.
\<close>

theorem check_superclaude_verdict:
  assumes "os (import_check python_path) = Exits secs rc out err"
  shows "(snd (check_superclaude os python_path env_name) = Returned True
            \<longrightarrow> rc = 0 \<and> str_in ''OK'' out) \<and>
         (rc = 0 \<and> str_in ''OK'' out \<and>
          (\<exists>secs' rc' out' err'. os (details_check python_path) = Exits secs' rc' out' err')
            \<longrightarrow> snd (check_superclaude os python_path env_name) = Returned True) \<and>
         (rc \<noteq> 0 \<or> \<not> str_in ''OK'' out
            \<longrightarrow> check_superclaude os python_path env_name =
                  ([Call (import_check python_path), Print (NotFound env_name)] @
                   (if err \<noteq> [] then [Print (ErrorText (strip err))] else []),
                   Returned False))"
proof -
  have a: "snd (check_superclaude os python_path env_name) = Returned True
             \<longrightarrow> rc = 0 \<and> str_in ''OK'' out"
  proof (rule impI, rule ccontr)
    assume found: "snd (check_superclaude os python_path env_name) = Returned True"
    assume "\<not> (rc = 0 \<and> str_in ''OK'' out)"
    then have "snd (check_superclaude os python_path env_name) = Returned False"
      by (simp add: check_Exits_bad [where os = os and p = python_path, OF assms])
    with found show False by simp
  qed
  have b: "rc = 0 \<and> str_in ''OK'' out \<and>
          (\<exists>secs' rc' out' err'. os (details_check python_path) = Exits secs' rc' out' err')
            \<longrightarrow> snd (check_superclaude os python_path env_name) = Returned True"
    using check_Exits_good [where os = os and p = python_path and n = env_name, OF assms]
    by auto
  have c: "rc \<noteq> 0 \<or> \<not> str_in ''OK'' out
            \<longrightarrow> check_superclaude os python_path env_name =
                  ([Call (import_check python_path), Print (NotFound env_name)] @
                   (if err \<noteq> [] then [Print (ErrorText (strip err))] else []),
                   Returned False)"
    using check_Exits_bad [where os = os and p = python_path and n = env_name, OF assms]
    by blast
  from a b c show ?thesis by blast
qed

text \<open>
  On the sample machine \<^verbatim>\<open>python3\<close> is found, and the interpreter without the package
  is reported with the text of its error.
\<close>

theorem check_superclaude_verdict_witness:
  "sample_system (import_check ''python3'') = Exits 1 0 ''OK\<newline>'' [] \<and>
   snd (check_superclaude sample_system ''python3'' ''System Python'') = Returned True \<and>
   sample_system (import_check ''/work/.venv/bin/python'') =
     Exits 1 1 [] ''ModuleNotFoundError: No module named SuperClaude\<newline>'' \<and>
   check_superclaude sample_system ''/work/.venv/bin/python'' ''Project .venv'' =
     ([Call (import_check ''/work/.venv/bin/python''), Print (NotFound ''Project .venv''),
       Print (ErrorText ''ModuleNotFoundError: No module named SuperClaude'')],
      Returned False)"
  using check_superclaude_verdict
      [where os = sample_system and python_path = "''python3''"
         and env_name = "''System Python''", OF sample_system_simps(1)]
    check_superclaude_verdict
      [where os = sample_system and python_path = "''/work/.venv/bin/python''"
         and env_name = "''Project .venv''", OF sample_system_simps(7)]
  by (simp add: sample_system_simps strip_def isspace_def)

text \<open>
  C4, as the claim has it: a candidate that resolves to no program is recorded as not
  found, the scan goes on, and no error leaves it. On a standard output that cannot encode
  the cross in front of the verdict, the \<^verbatim>\<open>print\<close> inside the handler raises and nothing
  takes it: on a machine without \<^verbatim>\<open>python3\<close> the exception leaves \<open>check_superclaude\<close>
  and the loop of verify-superclaude.py at the first environment, no verdict is recorded and
  no later environment is probed; the loop of test-simple-fix.py ends in the same way.
\<close>

theorem unprintable_verdict_counterexample:
  "bare_system (import_check ''python3'') = NoSuchFile \<and>
   ascii_stdout (PythonNotFound ''System Python'' ''python3'') =
     Some ''ascii codec cannot encode character'' \<and>
   check_superclaude_on ascii_stdout bare_system ''python3'' ''System Python'' =
     ([Call (import_check ''python3'')],
      Raised (OtherException ''ascii codec cannot encode character'')) \<and>
   environments_loop_on ascii_stdout bare_system (environments ''/work'') 0 =
     ([Call (import_check ''python3'')],
      Raised (OtherException ''ascii codec cannot encode character'')) \<and>
   python_paths_loop_on ascii_stdout bare_system (python_paths Map.empty ''/work'') None =
     ([Print (NotSet ''SUPERCLAUDE_PYTHON''), Call (import_check ''python3'')],
      Raised (OtherException ''ascii codec cannot encode character''))"
  by (simp add: bare_system_simps ascii_stdout_def check_on_NoSuchFile sample_lists
        sample_environments_def sample_python_paths_def loop_on_simps io_defs print_on_def)

text \<open>
  C4, amended. When the standard output takes the line of the verdict: an interpreter that
  does not exist makes \<^verbatim>\<open>subprocess.run\<close> raise \<^verbatim>\<open>FileNotFoundError\<close> without a child,
  and \<open>check_superclaude\<close> then calls nothing else, prints that no Python was found at
  the path and returns false; one that cannot be run, \<^verbatim>\<open>subprocess.run\<close> raising another
  exception, is reported with the line \<open>ErrorMsg\<close> and false. After a false result and the
  blank line the loop goes on with the next environment, the counter unchanged. The loop of
  test-simple-fix.py prints that the entry is not accessible and goes on with
  \<open>working_python\<close> unchanged; the loop of test-bridge-functionality.py, which prints
  nothing, goes on too. An exception that leaves \<open>check_superclaude\<close> is one that
  \<^verbatim>\<open>print\<close> raised, never one of \<^verbatim>\<open>subprocess.run\<close>.
\<close>

theorem unusable_interpreter_is_reported:
  "(os (import_check python_path) = NoSuchFile \<and>
    out (PythonNotFound env_name python_path) = None \<longrightarrow>
      check_superclaude_on out os python_path env_name =
        ([Call (import_check python_path), Print (PythonNotFound env_name python_path)],
         Returned False)) \<and>
   (os (import_check python_path) = Fails msg \<and>
    out (ErrorMsg env_name (OtherException msg)) = None \<longrightarrow>
      check_superclaude_on out os python_path env_name =
        ([Call (import_check python_path), Print (ErrorMsg env_name (OtherException msg))],
         Returned False)) \<and>
   (snd (check_superclaude_on out os python_path env_name) = Returned False \<and>
    out Blank = None \<longrightarrow>
      environments_loop_on out os ((env_name, python_path) # rest) found_count =
        (fst (check_superclaude_on out os python_path env_name) @ Print Blank #
           fst (environments_loop_on out os rest found_count),
         snd (environments_loop_on out os rest found_count))) \<and>
   (python_path \<noteq> [] \<and>
    (os (import_check python_path) = NoSuchFile \<or> os (import_check python_path) = Fails msg) \<and>
    out (NotAccessible name python_path) = None \<longrightarrow>
      python_paths_loop_on out os ((name, Some python_path) # later_entries) working_python =
        (Call (import_check python_path) # Print (NotAccessible name python_path) #
           fst (python_paths_loop_on out os later_entries working_python),
         snd (python_paths_loop_on out os later_entries working_python))) \<and>
   (py \<noteq> [] \<and> (os (import_only py) = NoSuchFile \<or> os (import_only py) = Fails msg) \<longrightarrow>
      python_cmd_loop os (py # pys) =
        (Call (import_only py) # fst (python_cmd_loop os pys), snd (python_cmd_loop os pys))) \<and>
   (snd (check_superclaude_on out os python_path env_name) = Raised e \<longrightarrow>
      (\<exists>l text. out l = Some text \<and> e = OtherException text))"
proof -
  have a: "os (import_check python_path) = NoSuchFile \<and>
    out (PythonNotFound env_name python_path) = None \<longrightarrow>
      check_superclaude_on out os python_path env_name =
        ([Call (import_check python_path), Print (PythonNotFound env_name python_path)],
         Returned False)"
    by (simp add: check_on_NoSuchFile)
  have b: "os (import_check python_path) = Fails msg \<and>
    out (ErrorMsg env_name (OtherException msg)) = None \<longrightarrow>
      check_superclaude_on out os python_path env_name =
        ([Call (import_check python_path), Print (ErrorMsg env_name (OtherException msg))],
         Returned False)"
    by (simp add: check_on_Fails)
  have c: "snd (check_superclaude_on out os python_path env_name) = Returned False \<and>
    out Blank = None \<longrightarrow>
      environments_loop_on out os ((env_name, python_path) # rest) found_count =
        (fst (check_superclaude_on out os python_path env_name) @ Print Blank #
           fst (environments_loop_on out os rest found_count),
         snd (environments_loop_on out os rest found_count))"
    using env_loop_on_after_false by blast
  have d: "python_path \<noteq> [] \<and>
    (os (import_check python_path) = NoSuchFile \<or> os (import_check python_path) = Fails msg) \<and>
    out (NotAccessible name python_path) = None \<longrightarrow>
      python_paths_loop_on out os ((name, Some python_path) # later_entries) working_python =
        (Call (import_check python_path) # Print (NotAccessible name python_path) #
           fst (python_paths_loop_on out os later_entries working_python),
         snd (python_paths_loop_on out os later_entries working_python))"
    using paths_loop_on_unusable by blast
  have e: "py \<noteq> [] \<and> (os (import_only py) = NoSuchFile \<or> os (import_only py) = Fails msg) \<longrightarrow>
      python_cmd_loop os (py # pys) =
        (Call (import_only py) # fst (python_cmd_loop os pys), snd (python_cmd_loop os pys))"
    using cmd_loop_unusable by blast
  have f: "snd (check_superclaude_on out os python_path env_name) = Raised e \<longrightarrow>
      (\<exists>l text. out l = Some text \<and> e = OtherException text)"
    using check_on_raises by blast
  from a b c d e f show ?thesis by blast
qed

text \<open>
  The sample machine has no interpreter at \<^verbatim>\<open>/venv/bin/python\<close>; seen later it has a
  file there that may not be run. Both are reported and \<^verbatim>\<open>python3\<close>, next in the list, is
  still found. On the machine without \<^verbatim>\<open>python3\<close> the exception that leaves is the one
  the standard output raised.
\<close>

theorem unusable_interpreter_is_reported_witness:
  "sample_system (import_check ''/venv/bin/python'') = NoSuchFile \<and>
   check_superclaude_on plain_stdout sample_system ''/venv/bin/python'' ''Parent venv'' =
     ([Call (import_check ''/venv/bin/python''),
       Print (PythonNotFound ''Parent venv'' ''/venv/bin/python'')],
      Returned False) \<and>
   later_system (import_check ''/venv/bin/python'') = Fails ''[Errno 13] Permission denied'' \<and>
   check_superclaude_on plain_stdout later_system ''/venv/bin/python'' ''Parent venv'' =
     ([Call (import_check ''/venv/bin/python''),
       Print (ErrorMsg ''Parent venv'' (OtherException ''[Errno 13] Permission denied''))],
      Returned False) \<and>
   environments_loop_on plain_stdout sample_system
       [(''Parent venv'', ''/venv/bin/python''), (''System Python'', ''python3'')] 0 =
     (Call (import_check ''/venv/bin/python'') #
      Print (PythonNotFound ''Parent venv'' ''/venv/bin/python'') # Print Blank #
      fst (environments_loop_on plain_stdout sample_system [(''System Python'', ''python3'')] 0),
      Returned 1) \<and>
   python_paths_loop_on plain_stdout later_system
       [(''Venv python'', Some ''/venv/bin/python''), (''System python3'', Some ''python3'')] None =
     (Call (import_check ''/venv/bin/python'') #
      Print (NotAccessible ''Venv python'' ''/venv/bin/python'') #
      fst (python_paths_loop_on plain_stdout later_system
             [(''System python3'', Some ''python3'')] None),
      Returned (Some ''python3'')) \<and>
   python_cmd_loop later_system [''/opt/none/python'', ''python3''] =
     ([Call (import_only ''/opt/none/python''), Call (import_only ''python3'')],
      Returned (Some ''python3'')) \<and>
   snd (check_superclaude_on ascii_stdout bare_system ''python3'' ''System Python'') =
     Raised (OtherException ''ascii codec cannot encode character'') \<and>
   ascii_stdout (PythonNotFound ''System Python'' ''python3'') =
     Some ''ascii codec cannot encode character''"
proof -
  have later_missing: "later_system (import_check ''/venv/bin/python'') =
      Fails ''[Errno 13] Permission denied''"
    by (simp add: later_system_def cmd_defs)
  have one: "snd (environments_loop_on plain_stdout sample_system
        [(''System Python'', ''python3'')] 0) = Returned 1"
    by (simp add: plain_stdout_eq env_loop_on_plain env_loop_step sample_checks return_io_def)
  have two: "snd (python_paths_loop_on plain_stdout later_system
        [(''System python3'', Some ''python3'')] None) = Returned (Some ''python3'')"
    by (simp add: plain_stdout_eq paths_loop_on_plain paths_loop_set later_system_simps
          falsy_def return_io_def)
  have three: "python_cmd_loop later_system [''python3''] =
      ([Call (import_only ''python3'')], Returned (Some ''python3''))"
    by (simp add: cmd_loop_step later_system_simps)
  have raised: "snd (check_superclaude_on ascii_stdout bare_system ''python3'' ''System Python'') =
      Raised (OtherException ''ascii codec cannot encode character'')"
    by (simp add: check_on_NoSuchFile bare_system_simps ascii_stdout_def)
  have refused: "ascii_stdout (PythonNotFound ''System Python'' ''python3'') =
      Some ''ascii codec cannot encode character''"
    by (simp add: ascii_stdout_def)
  have false_result:
    "snd (check_superclaude_on plain_stdout sample_system ''/venv/bin/python'' ''Parent venv'') =
       Returned False"
    by (simp add: check_on_NoSuchFile sample_system_simps plain_stdout_def)
  show ?thesis
    using unusable_interpreter_is_reported
      [where os = sample_system and out = plain_stdout and python_path = "''/venv/bin/python''"
         and env_name = "''Parent venv''" and rest = "[(''System Python'', ''python3'')]"
         and found_count = 0]
      unusable_interpreter_is_reported
      [where os = later_system and out = plain_stdout and python_path = "''/venv/bin/python''"
         and env_name = "''Parent venv''" and msg = "''[Errno 13] Permission denied''"
         and name = "''Venv python''"
         and later_entries = "[(''System python3'', Some ''python3'')]"
         and working_python = None and py = "''/opt/none/python''" and pys = "[''python3'']"]
      unusable_interpreter_is_reported
      [where os = bare_system and out = ascii_stdout and python_path = "''python3''"
         and env_name = "''System Python''"
         and e = "OtherException ''ascii codec cannot encode character''"]
      later_missing one two three raised refused false_result
    by (simp add: sample_system_simps later_system_simps plain_stdout_def)
qed

text \<open>
  C5. The probing calls of \<^verbatim>\<open>subprocess.run\<close> pass no \<^verbatim>\<open>timeout\<close>. With an
  interpreter that never exits, \<open>check_superclaude\<close> does not return, so the loop of
  verify-superclaude.py never reaches the environment after it, which has the package, and
  the loop of test-simple-fix.py stops in the same way; nothing is recorded as timed out.
  The loop over \<^verbatim>\<open>test_commands\<close>, which passes \<^verbatim>\<open>timeout=5\<close>, prints that the same
  command timed out and returns.
\<close>

theorem check_waits_forever_on_stuck_interpreter:
  "stuck_system (import_check ''/work/venv/bin/python'') = Hangs \<and>
   check_superclaude stuck_system ''/work/venv/bin/python'' ''Project venv'' =
     ([Call (import_check ''/work/venv/bin/python'')], Blocked) \<and>
   environments_loop stuck_system (environments ''/work'') 0 =
     ([Call (import_check ''python3''), Print (PythonNotFound ''System Python'' ''python3''),
       Print Blank, Call (import_check ''/work/venv/bin/python'')],
      Blocked) \<and>
   python_paths_loop stuck_system (python_paths Map.empty ''/work'') None =
     ([Print (NotSet ''SUPERCLAUDE_PYTHON''), Call (import_check ''python3''),
       Print (NotAccessible ''System python3'' ''python3''),
       Call (import_check ''/work/venv/bin/python'')],
      Blocked) \<and>
   test_command stuck_system ''Version check''
       [''/work/venv/bin/python'', ''-m'', ''SuperClaude'', ''--version''] =
     ([Print (Testing ''Version check''),
       Print (Command [''/work/venv/bin/python'', ''-m'', ''SuperClaude'', ''--version'']),
       Call [''/work/venv/bin/python'', ''-m'', ''SuperClaude'', ''--version''],
       Print TimedOut],
      Returned ()) \<and>
   snd (test_commands_loop stuck_system (test_commands ''/work/venv/bin/python'')) =
     Returned ()"
proof -
  have "\<And>arguments. stuck_system (''/work/venv/bin/python'' # arguments) = Hangs"
    by (simp add: stuck_system_def)
  then have "snd (test_commands_loop stuck_system (test_commands ''/work/venv/bin/python'')) =
     Returned ()"
    by (simp add: test_commands_def test_command_def io_defs)
  then show ?thesis
    by (simp add: stuck_system_simps check_Hangs check_NoSuchFile env_loop_step
          sample_lists sample_environments_def sample_python_paths_def paths_loop_unset
          paths_loop_set falsy_def test_command_def io_defs)
qed

text \<open>
  C6, as the claim has it: a call fails only when the list of candidates is empty, with
  an error for the invalid input. The lists of the scripts are literals that are never
  empty and nothing tests a list for emptiness, and a call can fail all the same: on a
  standard output that encodes ASCII only, the loop of verify-superclaude.py on its own
  list, \<^verbatim>\<open>python3\<close> having the package, ends with the exception that \<^verbatim>\<open>print\<close> raised
  inside the handler.
\<close>

theorem other_failure_counterexample:
  "environments ''/work'' \<noteq> [] \<and>
   sample_system (import_check ''python3'') = Exits 1 0 ''OK\<newline>'' [] \<and>
   environments_loop_on ascii_stdout sample_system (environments ''/work'') 0 =
     ([Call (import_check ''python3'')],
      Raised (OtherException ''ascii codec cannot encode character''))"
  by (simp add: sample_system_simps ascii_stdout_def sample_lists sample_environments_def
        check_superclaude_on_def loop_on_simps io_defs print_on_def)

text \<open>
  C6, amended. The lists the loops run on are not empty. An exception that leaves the loop
  of verify-superclaude.py or the loop of test-simple-fix.py is one that \<^verbatim>\<open>print\<close>
  raised, never one of \<^verbatim>\<open>subprocess.run\<close>; the loop of test-bridge-functionality.py
  that looks for \<open>python_cmd\<close> raises nothing.
\<close>

theorem only_print_failures_leave_the_loops:
  "environments cwd \<noteq> [] \<and> python_paths environ cwd \<noteq> [] \<and>
   python_cmd_candidates environ \<noteq> [] \<and>
   (snd (environments_loop_on out os envs found_count) = Raised e \<longrightarrow>
      (\<exists>l text. out l = Some text \<and> e = OtherException text)) \<and>
   (snd (python_paths_loop_on out os entries working_python) = Raised e \<longrightarrow>
      (\<exists>l text. out l = Some text \<and> e = OtherException text)) \<and>
   snd (python_cmd_loop os pys) \<noteq> Raised e"
  using env_loop_on_raises [of out os envs found_count e]
    paths_loop_on_raises [of out os entries working_python e]
  by (simp add: script_lists_not_empty cmd_loop_never_raises)

text \<open>
  The two loops on the lists of their scripts and a standard output that encodes ASCII
  only: the exception that leaves is the one the standard output raised. On the machine
  without any interpreter the loop for \<open>python_cmd\<close> returns with nothing selected.
\<close>

theorem only_print_failures_leave_the_loops_witness:
  "snd (environments_loop_on ascii_stdout sample_system (environments ''/work'') 0) =
     Raised (OtherException ''ascii codec cannot encode character'') \<and>
   snd (python_paths_loop_on ascii_stdout bare_system (python_paths Map.empty ''/work'') None) =
     Raised (OtherException ''ascii codec cannot encode character'') \<and>
   ascii_stdout (Found ''System Python'') = Some ''ascii codec cannot encode character'' \<and>
   snd (python_cmd_loop bare_system (python_cmd_candidates Map.empty)) = Returned None"
proof -
  have a: "snd (environments_loop_on ascii_stdout sample_system (environments ''/work'') 0) =
     Raised (OtherException ''ascii codec cannot encode character'')"
    by (simp add: sample_system_simps ascii_stdout_def sample_lists sample_environments_def
        check_superclaude_on_def loop_on_simps io_defs print_on_def)
  have b: "snd (python_paths_loop_on ascii_stdout bare_system
        (python_paths Map.empty ''/work'') None) =
     Raised (OtherException ''ascii codec cannot encode character'')"
    by (simp add: bare_system_simps ascii_stdout_def sample_lists sample_python_paths_def
        loop_on_simps io_defs print_on_def)
  have c: "ascii_stdout (Found ''System Python'') = Some ''ascii codec cannot encode character''"
    by (simp add: ascii_stdout_def)
  have d: "snd (python_cmd_loop bare_system (python_cmd_candidates Map.empty)) = Returned None"
    by (simp add: python_cmd_candidates_def cmd_loop_step bare_system_simps return_io_def)
  show ?thesis
    using only_print_failures_leave_the_loops
      [where out = ascii_stdout and os = sample_system and envs = "environments ''/work''"
         and found_count = 0 and e = "OtherException ''ascii codec cannot encode character''"]
      only_print_failures_leave_the_loops
      [where out = ascii_stdout and os = bare_system
         and entries = "python_paths Map.empty ''/work''" and working_python = None
         and e = "OtherException ''ascii codec cannot encode character''"]
      a b c d
    by simp
qed

text \<open>
  C7. When \<open>check_superclaude\<close> returns true it has printed no line with error text, and
  when it returns false it has printed no line with the resolved locations.
\<close>

theorem verdict_excludes_other_text:
  "(snd (check_superclaude os python_path env_name) = Returned True \<longrightarrow>
      (\<forall>l. Print l \<in> set (fst (check_superclaude os python_path env_name))
           \<longrightarrow> \<not> is_diagnostic l)) \<and>
   (snd (check_superclaude os python_path env_name) = Returned False \<longrightarrow>
      (\<forall>l. Print l \<in> set (fst (check_superclaude os python_path env_name))
           \<longrightarrow> \<not> is_metadata l))"
proof (cases os python_path rule: check_cases)
  case good
  then show ?thesis
    by (auto simp add: check_Exits_good split: proc.splits)
qed (auto simp add: check_NoSuchFile check_Fails check_Hangs check_Exits_bad)

text \<open>
  On the sample machine the result for \<^verbatim>\<open>python3\<close> is true and its line of details is no
  error text; the result for the interpreter without the package is false and its line of
  error text is no line of details.
\<close>

theorem verdict_excludes_other_text_witness:
  "snd (check_superclaude sample_system ''python3'' ''System Python'') = Returned True \<and>
   Print (Details ''Python: /usr/bin/python3\<newline>  Module: /usr/lib/SuperClaude/__init__.py'')
     \<in> set (fst (check_superclaude sample_system ''python3'' ''System Python'')) \<and>
   \<not> is_diagnostic
       (Details ''Python: /usr/bin/python3\<newline>  Module: /usr/lib/SuperClaude/__init__.py'') \<and>
   snd (check_superclaude sample_system ''/work/.venv/bin/python'' ''Project .venv'') =
     Returned False \<and>
   Print (ErrorText ''ModuleNotFoundError: No module named SuperClaude'')
     \<in> set (fst (check_superclaude sample_system ''/work/.venv/bin/python'' ''Project .venv'')) \<and>
   \<not> is_metadata (ErrorText ''ModuleNotFoundError: No module named SuperClaude'')"
proof -
  have found: "snd (check_superclaude sample_system ''python3'' ''System Python'') = Returned True"
    and details: "Print (Details ''Python: /usr/bin/python3\<newline>  Module: /usr/lib/SuperClaude/__init__.py'')
      \<in> set (fst (check_superclaude sample_system ''python3'' ''System Python''))"
    and missing: "snd (check_superclaude sample_system ''/work/.venv/bin/python'' ''Project .venv'') =
      Returned False"
    and error: "Print (ErrorText ''ModuleNotFoundError: No module named SuperClaude'')
      \<in> set (fst (check_superclaude sample_system ''/work/.venv/bin/python'' ''Project .venv''))"
    by (simp_all add: sample_checks)
  show ?thesis
    using verdict_excludes_other_text
        [where os = sample_system and python_path = "''python3''"
           and env_name = "''System Python''"]
      verdict_excludes_other_text
        [where os = sample_system and python_path = "''/work/.venv/bin/python''"
           and env_name = "''Project .venv''"]
      found details missing error
    by blast
qed

text \<open>
  C8. The run that asks for the details sits inside the same \<^verbatim>\<open>try\<close> as the check. When
  that run raises, after the check has succeeded and the line \<open>Found\<close> has been printed,
  the handler prints an error and \<open>check_superclaude\<close> returns false: the environment is
  not counted. When the run only exits with a status other than zero the result stays true.
\<close>

theorem failed_details_run_loses_the_success:
  "undecodable_system (import_check ''python3'') = Exits 1 0 ''OK\<newline>'' [] \<and>
   undecodable_system (details_check ''python3'') =
     Fails ''utf-8 codec cannot decode byte 0xe9 in position 24'' \<and>
   check_superclaude undecodable_system ''python3'' ''System Python'' =
     ([Call (import_check ''python3''), Print (Found ''System Python''),
       Call (details_check ''python3''),
       Print (ErrorMsg ''System Python''
                (OtherException ''utf-8 codec cannot decode byte 0xe9 in position 24''))],
      Returned False) \<and>
   snd (environments_loop undecodable_system [(''System Python'', ''python3'')] 0) = Returned 0 \<and>
   sample_system (details_check ''/work/venv/bin/python'') = Exits 1 1 [] ''Traceback\<newline>'' \<and>
   check_superclaude sample_system ''/work/venv/bin/python'' ''Project venv'' =
     ([Call (import_check ''/work/venv/bin/python''), Print (Found ''Project venv''),
       Call (details_check ''/work/venv/bin/python'')],
      Returned True)"
proof -
  have "check_superclaude undecodable_system ''python3'' ''System Python'' =
     ([Call (import_check ''python3''), Print (Found ''System Python''),
       Call (details_check ''python3''),
       Print (ErrorMsg ''System Python''
                (OtherException ''utf-8 codec cannot decode byte 0xe9 in position 24''))],
      Returned False)"
    by (simp add: check_superclaude_def io_defs undecodable_system_simps)
  then show ?thesis
    by (simp add: undecodable_system_simps sample_system_simps sample_checks env_loop_step
          return_io_def)
qed

text \<open>
  C9. Two runs of a selection loop on the same list select the same interpreter when, for
  every entry, the system answers both times in the same sense: the entry succeeds in both
  or in neither, and its check comes to an end. Exit times, printed texts and the kind of
  failure may differ. \<open>check_superclaude\<close> does and returns the same whenever the system
  answers its two commands in the same way.
\<close>

theorem selection_is_stable:
  "((\<forall>c\<in>set entries.
       path_succeeds os c = path_succeeds os' c \<and> \<not> path_blocks os c \<and> \<not> path_blocks os' c)
    \<longrightarrow> snd (python_paths_loop os entries None) =
        snd (python_paths_loop os' entries None)) \<and>
   ((\<forall>py\<in>set pys.
       py_succeeds os py = py_succeeds os' py \<and> \<not> py_blocks os py \<and> \<not> py_blocks os' py)
    \<longrightarrow> snd (python_cmd_loop os pys) = snd (python_cmd_loop os' pys)) \<and>
   (os (import_check python_path) = os' (import_check python_path) \<and>
    os (details_check python_path) = os' (details_check python_path)
    \<longrightarrow> check_superclaude os python_path env_name = check_superclaude os' python_path env_name)"
proof -
  have a: "(\<forall>c\<in>set entries.
       path_succeeds os c = path_succeeds os' c \<and> \<not> path_blocks os c \<and> \<not> path_blocks os' c)
    \<longrightarrow> snd (python_paths_loop os entries None) =
        snd (python_paths_loop os' entries None)"
  proof
    assume h: "\<forall>c\<in>set entries.
       path_succeeds os c = path_succeeds os' c \<and> \<not> path_blocks os c \<and> \<not> path_blocks os' c"
    then have "find (path_succeeds os) entries = find (path_succeeds os') entries"
      by (intro find_cong) auto
    with h show "snd (python_paths_loop os entries None) =
        snd (python_paths_loop os' entries None)"
      by (simp add: paths_loop_select)
  qed
  have b: "(\<forall>py\<in>set pys.
       py_succeeds os py = py_succeeds os' py \<and> \<not> py_blocks os py \<and> \<not> py_blocks os' py)
    \<longrightarrow> snd (python_cmd_loop os pys) = snd (python_cmd_loop os' pys)"
    using cmd_loop_agree by blast
  have c: "os (import_check python_path) = os' (import_check python_path) \<and>
    os (details_check python_path) = os' (details_check python_path)
    \<longrightarrow> check_superclaude os python_path env_name = check_superclaude os' python_path env_name"
    using check_depends_on_two_commands by blast
  from a b c show ?thesis by blast
qed

text \<open>
  The sample machine seen at two moments answers \<^verbatim>\<open>python3\<close> differently in time and
  text, and the same interpreter is selected.
\<close>

theorem selection_is_stable_witness:
  "sample_system (import_check ''python3'') \<noteq> later_system (import_check ''python3'') \<and>
   snd (python_paths_loop sample_system sample_python_paths None) =
     snd (python_paths_loop later_system sample_python_paths None) \<and>
   snd (python_cmd_loop sample_system sample_pys) = snd (python_cmd_loop later_system sample_pys) \<and>
   check_superclaude sample_system ''/work/venv/bin/python'' ''Project venv'' =
     check_superclaude later_system ''/work/venv/bin/python'' ''Project venv''"
proof -
  have paths: "\<forall>c\<in>set sample_python_paths.
      path_succeeds sample_system c = path_succeeds later_system c \<and>
      \<not> path_blocks sample_system c \<and> \<not> path_blocks later_system c"
    by (simp add: sample_python_paths_def path_succeeds_def path_blocks_def exits_zero_def
          sample_system_simps later_system_simps)
  have pys: "\<forall>py\<in>set sample_pys.
      py_succeeds sample_system py = py_succeeds later_system py \<and>
      \<not> py_blocks sample_system py \<and> \<not> py_blocks later_system py"
    by (simp add: sample_pys_def py_succeeds_def py_blocks_def exits_zero_def
          sample_system_simps later_system_simps)
  have same: "sample_system (import_check ''/work/venv/bin/python'') =
        later_system (import_check ''/work/venv/bin/python'') \<and>
      sample_system (details_check ''/work/venv/bin/python'') =
        later_system (details_check ''/work/venv/bin/python'')"
    by (simp add: sample_system_simps later_system_simps)
  have differ: "sample_system (import_check ''python3'') \<noteq> later_system (import_check ''python3'')"
    by (simp add: sample_system_simps later_system_simps)
  show ?thesis
    using selection_is_stable
      [where os = sample_system and os' = later_system and entries = sample_python_paths
         and pys = sample_pys and python_path = "''/work/venv/bin/python''"
         and env_name = "''Project venv''"]
      paths pys same differ
    by blast
qed

text \<open>
  C10. An entry whose path is \<^verbatim>\<open>None\<close> or empty is passed over: in test-simple-fix.py
  the loop prints that it is not set, runs nothing for it, and the interpreter selected is
  the one selected without the entry, wherever the entry stands in the list; in
  test-bridge-functionality.py the loop does and returns exactly what it does without it.
\<close>

theorem unset_entry_is_skipped:
  "(falsy python_path \<longrightarrow>
      python_paths_loop os ((name, python_path) # rest) working_python =
        (Print (NotSet name) # fst (python_paths_loop os rest working_python),
         snd (python_paths_loop os rest working_python)) \<and>
      snd (python_paths_loop os (before @ (name, python_path) # rest) working_python) =
        snd (python_paths_loop os (before @ rest) working_python)) \<and>
   python_cmd_loop os (pys_before @ [] # pys_rest) = python_cmd_loop os (pys_before @ pys_rest)"
  by (simp add: paths_loop_unset paths_loop_skip_inside cmd_loop_skip_inside)

text \<open>
  On the sample machine the environment variable is not set: one line says so, and the
  rest of the list selects \<^verbatim>\<open>python3\<close>.
\<close>

theorem unset_entry_is_skipped_witness:
  "falsy None \<and>
   python_paths_loop sample_system sample_python_paths None =
     (Print (NotSet ''SUPERCLAUDE_PYTHON'') #
        fst (python_paths_loop sample_system (tl sample_python_paths) None),
      snd (python_paths_loop sample_system (tl sample_python_paths) None)) \<and>
   snd (python_paths_loop sample_system (tl sample_python_paths) None) =
     Returned (Some ''python3'')"
proof -
  have "falsy None" by (simp add: falsy_def)
  moreover have "snd (python_paths_loop sample_system (tl sample_python_paths) None) =
     Returned (Some ''python3'')"
    by (simp add: sample_python_paths_def paths_loop_set sample_system_simps falsy_def
          return_io_def)
  ultimately show ?thesis
    using unset_entry_is_skipped
      [where python_path = None and os = sample_system and name = "''SUPERCLAUDE_PYTHON''"
         and rest = "tl sample_python_paths" and working_python = None and before = "[]"
         and pys_before = "[]" and pys_rest = "[]"]
    by (simp add: sample_python_paths_def)
qed

end
